theory Spec2Isabelle
  imports Complex_Main "HOL-Library.AList"
begin

section \<open>Python values\<close>

text \<open>
  The three enums of \<^verbatim>\<open>qexpy/settings/settings.py\<close>. Their \<^verbatim>\<open>.value\<close> strings are
  the ones written in the class bodies.
\<close>

datatype ErrorMethod = DERIVATIVE | MIN_MAX | MONTE_CARLO

datatype PrintStyle = DEFAULT | LATEX | SCIENTIFIC

datatype SigFigMode = AUTOMATIC | VALUE | ERROR

text \<open>
  A Python float is a real number or one of the three special values. Arithmetic on the
  real part is exact: the rounding of binary64 and the overflow of a finite result to
  infinity are outside this model.
\<close>

datatype pyfloat = FReal real | FPosInf | FNegInf | FNaN

text \<open>
  The library is dynamically typed: a setter receives whatever the caller passes, and a
  dictionary slot holds whatever was stored last. \<open>pyval\<close> is the universe of values the
  modelled functions can receive. Strings are ASCII.
\<close>

datatype pyval =
    PNone
  | PBool bool
  | PInt int
  | PFloat pyfloat
  | PStr string
  | PList "pyval list"
  | PErrorMethod ErrorMethod
  | PPrintStyle PrintStyle
  | PSigFigMode SigFigMode
  | PDict "(string \<times> pyval) list"

datatype py_error = KeyError | TypeError | ValueError | OverflowError | AttributeError

text \<open>
  What a call leaves behind: the object or store it worked on (or the value it returns),
  the lines written with \<^verbatim>\<open>print\<close>, and the exception that escaped, if any. A call that
  raises after it has mutated keeps the mutation.
\<close>

record 'a outcome =
  result :: 'a
  printed :: "string list"
  raised :: "py_error option"

definition returns :: "'a \<Rightarrow> 'a outcome" where
  "returns s = \<lparr>result = s, printed = [], raised = None\<rparr>"

definition prints :: "string \<Rightarrow> 'a \<Rightarrow> 'a outcome" where
  "prints msg s = \<lparr>result = s, printed = [msg], raised = None\<rparr>"

definition raises :: "py_error \<Rightarrow> 'a \<Rightarrow> 'a outcome" where
  "raises e s = \<lparr>result = s, printed = [], raised = Some e\<rparr>"

subsection \<open>Dictionaries\<close>

text \<open>
  A dict with string keys is an association list: \<^verbatim>\<open>d[k]\<close> raises KeyError on a missing
  key, \<^verbatim>\<open>d[k] = v\<close> overwrites the entry or appends a new one.
\<close>

definition getitem :: "(string \<times> 'v) list \<Rightarrow> string \<Rightarrow> py_error + 'v" where
  "getitem d k = (case map_of d k of None \<Rightarrow> Inl KeyError | Some v \<Rightarrow> Inr v)"

definition setitem :: "(string \<times> 'v) list \<Rightarrow> string \<Rightarrow> 'v \<Rightarrow> (string \<times> 'v) list" where
  "setitem d k v = AList.update k v d"

text \<open>\<^verbatim>\<open>x[k]\<close> and \<^verbatim>\<open>x[k] = v\<close> on an arbitrary value: only a dict supports them here.\<close>

fun subscript :: "pyval \<Rightarrow> string \<Rightarrow> py_error + pyval" where
  "subscript (PDict d) k = getitem d k"
| "subscript _ k = Inl TypeError"

fun subscript_assign :: "pyval \<Rightarrow> string \<Rightarrow> pyval \<Rightarrow> py_error + pyval" where
  "subscript_assign (PDict d) k v = Inr (PDict (setitem d k v))"
| "subscript_assign _ k v = Inl TypeError"

subsection \<open>Builtins\<close>

text \<open>\<^verbatim>\<open>isinstance(x, ErrorMethod)\<close> and \<^verbatim>\<open>isinstance(x, PrintStyle)\<close>.\<close>

fun isinstance_ErrorMethod :: "pyval \<Rightarrow> bool" where
  "isinstance_ErrorMethod (PErrorMethod _) = True"
| "isinstance_ErrorMethod _ = False"

fun isinstance_PrintStyle :: "pyval \<Rightarrow> bool" where
  "isinstance_PrintStyle (PPrintStyle _) = True"
| "isinstance_PrintStyle _ = False"

text \<open>The \<^verbatim>\<open>.value\<close> attribute: the string of an enum member, AttributeError elsewhere.\<close>

fun ErrorMethod_value :: "ErrorMethod \<Rightarrow> string" where
  "ErrorMethod_value DERIVATIVE = ''derivative''"
| "ErrorMethod_value MIN_MAX = ''min_max''"
| "ErrorMethod_value MONTE_CARLO = ''monte_carlo''"

fun PrintStyle_value :: "PrintStyle \<Rightarrow> string" where
  "PrintStyle_value DEFAULT = ''default''"
| "PrintStyle_value LATEX = ''latex''"
| "PrintStyle_value SCIENTIFIC = ''scientific''"

fun SigFigMode_value :: "SigFigMode \<Rightarrow> string" where
  "SigFigMode_value AUTOMATIC = ''automatic''"
| "SigFigMode_value VALUE = ''value''"
| "SigFigMode_value ERROR = ''error''"

fun enum_value :: "pyval \<Rightarrow> py_error + string" where
  "enum_value (PErrorMethod m) = Inr (ErrorMethod_value m)"
| "enum_value (PPrintStyle s) = Inr (PrintStyle_value s)"
| "enum_value (PSigFigMode m) = Inr (SigFigMode_value m)"
| "enum_value _ = Inl AttributeError"

text \<open>
  Truthiness, as \<^verbatim>\<open>if x:\<close> tests it. An enum member is true; None, False, zero and the
  empty containers are false.
\<close>

fun truthy :: "pyval \<Rightarrow> bool" where
  "truthy PNone = False"
| "truthy (PBool b) = b"
| "truthy (PInt i) = (i \<noteq> 0)"
| "truthy (PFloat (FReal r)) = (r \<noteq> 0)"
| "truthy (PFloat _) = True"
| "truthy (PStr s) = (s \<noteq> [])"
| "truthy (PList xs) = (xs \<noteq> [])"
| "truthy (PDict d) = (d \<noteq> [])"
| "truthy _ = True"

text \<open>
  \<^verbatim>\<open>int(x)\<close>. A string is stripped of surrounding whitespace, then read as an optional
  sign and decimal digits, where single underscores may separate digits. A float is
  truncated towards zero; infinity raises OverflowError and NaN raises ValueError.
  None, lists, dicts and enum members raise TypeError.
\<close>

definition is_space :: "char \<Rightarrow> bool" where
  "is_space c = (c \<in> set [CHR '' '', CHR 0x09, CHR 0x0A, CHR 0x0B, CHR 0x0C, CHR 0x0D])"

definition digit_val :: "char \<Rightarrow> nat option" where
  "digit_val c =
     (let n = (of_char c :: nat)
      in if 48 \<le> n \<and> n \<le> 57 then Some (n - 48) else None)"

fun int_digits :: "nat \<Rightarrow> string \<Rightarrow> nat option" where
  "int_digits acc [] = Some acc"
| "int_digits acc [c] = (case digit_val c of None \<Rightarrow> None | Some n \<Rightarrow> Some (acc * 10 + n))"
| "int_digits acc (c # d # cs) =
     (if c = CHR ''_'' then
        (case digit_val d of None \<Rightarrow> None | Some n \<Rightarrow> int_digits (acc * 10 + n) cs)
      else
        (case digit_val c of None \<Rightarrow> None | Some n \<Rightarrow> int_digits (acc * 10 + n) (d # cs)))"

fun parse_nat :: "string \<Rightarrow> nat option" where
  "parse_nat [] = None"
| "parse_nat (c # cs) = (case digit_val c of None \<Rightarrow> None | Some n \<Rightarrow> int_digits n cs)"

definition strip :: "string \<Rightarrow> string" where
  "strip s = rev (dropWhile is_space (rev (dropWhile is_space s)))"

fun parse_int :: "string \<Rightarrow> int option" where
  "parse_int [] = None"
| "parse_int (c # cs) =
     (if c = CHR ''-'' then map_option (\<lambda>n. - int n) (parse_nat cs)
      else if c = CHR ''+'' then map_option int (parse_nat cs)
      else map_option int (parse_nat (c # cs)))"

definition trunc :: "real \<Rightarrow> int" where
  "trunc r = (if 0 \<le> r then \<lfloor>r\<rfloor> else \<lceil>r\<rceil>)"

fun py_int :: "pyval \<Rightarrow> py_error + int" where
  "py_int (PInt i) = Inr i"
| "py_int (PBool b) = Inr (if b then 1 else 0)"
| "py_int (PFloat (FReal r)) = Inr (trunc r)"
| "py_int (PFloat FNaN) = Inl ValueError"
| "py_int (PFloat _) = Inl OverflowError"
| "py_int (PStr s) = (case parse_int (strip s) of None \<Rightarrow> Inl ValueError | Some i \<Rightarrow> Inr i)"
| "py_int _ = Inl TypeError"

section \<open>The configuration store (settings.py)\<close>

text \<open>
  Modelled from the spec: \<^verbatim>\<open>qexpy/settings/literals.py\<close> is missing. The five key
  constants settings.py imports from it are the strings that the \<^verbatim>\<open>config\<close> literal of
  settings.py itself uses as keys, the only values with which the getters can read the
  initial store.
\<close>

definition ERROR_METHOD :: string where
  "ERROR_METHOD = ''error_method''"

definition PRINT_STYLE :: string where
  "PRINT_STYLE = ''print_style''"

definition SIG_FIGS :: string where
  "SIG_FIGS = ''significant_figures''"

definition SIG_FIG_MODE :: string where
  "SIG_FIG_MODE = ''mode''"

definition SIG_FIG_VALUE :: string where
  "SIG_FIG_VALUE = ''value''"

type_synonym config = "(string \<times> pyval) list"

text \<open>The module-level literal \<^verbatim>\<open>config = {...}\<close>.\<close>

definition config :: config where
  "config =
     [(''error_method'', PErrorMethod DERIVATIVE),
      (''print_style'', PPrintStyle DEFAULT),
      (''significant_figures'',
         PDict [(''mode'', PSigFigMode AUTOMATIC), (''value'', PInt 1)])]"

text \<open>
  \<^verbatim>\<open>config[SIG_FIGS][k] = v\<close>: the inner dict is looked up, then mutated in place. No
  other reference to it exists, so the mutation is the replacement of the outer entry.
\<close>

definition set_sig_figs_entry :: "config \<Rightarrow> string \<Rightarrow> pyval \<Rightarrow> py_error + config" where
  "set_sig_figs_entry c k v =
     (case getitem c SIG_FIGS of
        Inl e \<Rightarrow> Inl e
      | Inr d \<Rightarrow>
          (case subscript_assign d k v of
             Inl e \<Rightarrow> Inl e
           | Inr d' \<Rightarrow> Inr (setitem c SIG_FIGS d')))"

definition reset_default_configuration :: "config \<Rightarrow> config outcome" where
  "reset_default_configuration c =
     (let c1 = setitem c ERROR_METHOD (PErrorMethod DERIVATIVE);
          c2 = setitem c1 PRINT_STYLE (PPrintStyle DEFAULT)
      in case set_sig_figs_entry c2 SIG_FIG_MODE (PSigFigMode AUTOMATIC) of
           Inl e \<Rightarrow> raises e c2
         | Inr c3 \<Rightarrow>
             (case set_sig_figs_entry c3 SIG_FIG_VALUE (PInt 1) of
                Inl e \<Rightarrow> raises e c3
              | Inr c4 \<Rightarrow> returns c4))"

definition error_method_msg :: string where
  "error_method_msg =
     ''Error: the error methods supported are derivative, min-max, and monte carlo.''
     @ [CHR 0x0A] @ ''These values are found under the enum settings.ErrorMethod''"

definition set_error_method :: "config \<Rightarrow> pyval \<Rightarrow> config outcome" where
  "set_error_method c new_method =
     (if \<not> isinstance_ErrorMethod new_method then prints error_method_msg c
      else returns (setitem c ERROR_METHOD new_method))"

definition get_error_method :: "config \<Rightarrow> py_error + pyval" where
  "get_error_method c = getitem c ERROR_METHOD"

definition print_style_msg :: string where
  "print_style_msg =
     ''Error: the print styles supported are default, latex, and scientific.''
     @ [CHR 0x0A] @ ''These values are found under the enum settings.PrintStyle''"

definition set_print_style :: "config \<Rightarrow> pyval \<Rightarrow> config outcome" where
  "set_print_style c new_style =
     (if \<not> isinstance_PrintStyle new_style then prints print_style_msg c
      else returns (setitem c ERROR_METHOD new_style))"

definition get_print_style :: "config \<Rightarrow> py_error + pyval" where
  "get_print_style c = getitem c PRINT_STYLE"

definition get_sig_fig_mode :: "config \<Rightarrow> py_error + pyval" where
  "get_sig_fig_mode c =
     (case getitem c SIG_FIGS of Inl e \<Rightarrow> Inl e | Inr d \<Rightarrow> subscript d SIG_FIG_MODE)"

definition get_sig_fig_value :: "config \<Rightarrow> py_error + pyval" where
  "get_sig_fig_value c =
     (case getitem c SIG_FIGS of Inl e \<Rightarrow> Inl e | Inr d \<Rightarrow> subscript d SIG_FIG_VALUE)"

text \<open>
  The handler \<^verbatim>\<open>except (ValueError, TypeError): print(msg)\<close>: it swallows these two
  exceptions and prints; any other exception leaves the function.
\<close>

definition except_ValueError_TypeError :: "string \<Rightarrow> py_error \<Rightarrow> config \<Rightarrow> config outcome" where
  "except_ValueError_TypeError msg e c =
     (if e = ValueError \<or> e = TypeError then prints msg c else raises e c)"

definition sig_figs_value_msg :: string where
  "sig_figs_value_msg =
     ''Error: the number of significant figures has to be an integer greater than 0''"

definition sig_figs_error_msg :: string where
  "sig_figs_error_msg = ''Error: the number of significant figures has to be an integer''"

definition set_sig_figs_for_value :: "config \<Rightarrow> pyval \<Rightarrow> config outcome" where
  "set_sig_figs_for_value c new_sig_figs =
     (case py_int new_sig_figs of
        Inl e \<Rightarrow> except_ValueError_TypeError sig_figs_value_msg e c
      | Inr sig_figs \<Rightarrow>
          if sig_figs \<le> 0 then except_ValueError_TypeError sig_figs_value_msg ValueError c
          else
            (case set_sig_figs_entry c SIG_FIG_VALUE (PInt sig_figs) of
               Inl e \<Rightarrow> except_ValueError_TypeError sig_figs_value_msg e c
             | Inr c1 \<Rightarrow>
                 (case set_sig_figs_entry c1 SIG_FIG_MODE (PSigFigMode VALUE) of
                    Inl e \<Rightarrow> except_ValueError_TypeError sig_figs_value_msg e c1
                  | Inr c2 \<Rightarrow> returns c2)))"

definition set_sig_figs_for_error :: "config \<Rightarrow> pyval \<Rightarrow> config outcome" where
  "set_sig_figs_for_error c new_sig_figs =
     (case py_int new_sig_figs of
        Inl e \<Rightarrow> except_ValueError_TypeError sig_figs_error_msg e c
      | Inr sig_figs \<Rightarrow>
          if sig_figs \<le> 0 then except_ValueError_TypeError sig_figs_error_msg ValueError c
          else
            (case set_sig_figs_entry c SIG_FIG_VALUE (PInt sig_figs) of
               Inl e \<Rightarrow> except_ValueError_TypeError sig_figs_error_msg e c
             | Inr c1 \<Rightarrow>
                 (case set_sig_figs_entry c1 SIG_FIG_MODE (PSigFigMode ERROR) of
                    Inl e \<Rightarrow> except_ValueError_TypeError sig_figs_error_msg e c1
                  | Inr c2 \<Rightarrow> returns c2)))"

text \<open>
  A sequence of calls on the store. A call that raises leaves the store as it was at the
  raise; the next call of the sequence works on that store.
\<close>

datatype setter_call =
    SetErrorMethod pyval
  | SetPrintStyle pyval
  | SetSigFigsForValue pyval
  | SetSigFigsForError pyval
  | ResetDefault

fun run_call :: "config \<Rightarrow> setter_call \<Rightarrow> config outcome" where
  "run_call c (SetErrorMethod v) = set_error_method c v"
| "run_call c (SetPrintStyle v) = set_print_style c v"
| "run_call c (SetSigFigsForValue v) = set_sig_figs_for_value c v"
| "run_call c (SetSigFigsForError v) = set_sig_figs_for_error c v"
| "run_call c ResetDefault = reset_default_configuration c"

fun run_calls :: "config \<Rightarrow> setter_call list \<Rightarrow> config" where
  "run_calls c [] = c"
| "run_calls c (x # xs) = run_calls (result (run_call c x)) xs"

section \<open>Experimental values (data.py)\<close>

subsection \<open>Numbers and arrays\<close>

text \<open>
  Modelled from the spec: \<^verbatim>\<open>qexpy/utils/utils.py\<close> is missing. \<^verbatim>\<open>NUMBER_TYPES\<close> are the
  numeric types (int and float; a bool is an int for \<^verbatim>\<open>isinstance\<close>), \<^verbatim>\<open>ARRAY_TYPES\<close>
  the array-likes, of which this model has the list.
\<close>

fun isinstance_NUMBER_TYPES :: "pyval \<Rightarrow> bool" where
  "isinstance_NUMBER_TYPES (PInt _) = True"
| "isinstance_NUMBER_TYPES (PFloat _) = True"
| "isinstance_NUMBER_TYPES (PBool _) = True"
| "isinstance_NUMBER_TYPES _ = False"

fun isinstance_ARRAY_TYPES :: "pyval \<Rightarrow> bool" where
  "isinstance_ARRAY_TYPES (PList _) = True"
| "isinstance_ARRAY_TYPES _ = False"

text \<open>
  \<^verbatim>\<open>float(x)\<close>. data.py applies it to instances of \<^verbatim>\<open>NUMBER_TYPES\<close> only, so the
  parsing of strings is not modelled. Nor is the OverflowError that Python raises for an
  int beyond the range of a float: the conversion of an int is exact here.
\<close>

fun py_float :: "pyval \<Rightarrow> py_error + pyfloat" where
  "py_float (PInt i) = Inr (FReal (of_int i))"
| "py_float (PBool b) = Inr (FReal (if b then 1 else 0))"
| "py_float (PFloat f) = Inr f"
| "py_float _ = Inl TypeError"

text \<open>\<^verbatim>\<open>x > 0\<close> on a number: false for NaN.\<close>

fun gt_zero :: "pyval \<Rightarrow> bool" where
  "gt_zero (PInt i) = (0 < i)"
| "gt_zero (PBool b) = b"
| "gt_zero (PFloat (FReal r)) = (0 < r)"
| "gt_zero (PFloat FPosInf) = True"
| "gt_zero _ = False"

text \<open>\<^verbatim>\<open>x == float('inf')\<close>.\<close>

fun eq_inf :: "pyval \<Rightarrow> bool" where
  "eq_inf (PFloat FPosInf) = True"
| "eq_inf _ = False"

text \<open>Float arithmetic on the extended reals, NaN absorbing.\<close>

fun fadd :: "pyfloat \<Rightarrow> pyfloat \<Rightarrow> pyfloat" where
  "fadd (FReal a) (FReal b) = FReal (a + b)"
| "fadd FNaN _ = FNaN"
| "fadd _ FNaN = FNaN"
| "fadd FPosInf FNegInf = FNaN"
| "fadd FNegInf FPosInf = FNaN"
| "fadd FPosInf _ = FPosInf"
| "fadd FNegInf _ = FNegInf"
| "fadd _ FPosInf = FPosInf"
| "fadd _ FNegInf = FNegInf"

fun fneg :: "pyfloat \<Rightarrow> pyfloat" where
  "fneg (FReal a) = FReal (- a)"
| "fneg FPosInf = FNegInf"
| "fneg FNegInf = FPosInf"
| "fneg FNaN = FNaN"

definition fsub :: "pyfloat \<Rightarrow> pyfloat \<Rightarrow> pyfloat" where
  "fsub a b = fadd a (fneg b)"

fun fsign :: "pyfloat \<Rightarrow> int" where
  "fsign (FReal a) = (if a < 0 then - 1 else if a = 0 then 0 else 1)"
| "fsign FPosInf = 1"
| "fsign FNegInf = - 1"
| "fsign FNaN = 0"

fun fmul :: "pyfloat \<Rightarrow> pyfloat \<Rightarrow> pyfloat" where
  "fmul (FReal a) (FReal b) = FReal (a * b)"
| "fmul FNaN _ = FNaN"
| "fmul _ FNaN = FNaN"
| "fmul a b =
     (if fsign a * fsign b = 0 then FNaN
      else if 0 < fsign a * fsign b then FPosInf else FNegInf)"

fun fsqrt :: "pyfloat \<Rightarrow> pyfloat" where
  "fsqrt (FReal a) = (if a < 0 then FNaN else FReal (sqrt a))"
| "fsqrt FPosInf = FPosInf"
| "fsqrt _ = FNaN"

text \<open>
  Division of a sum by the number of samples. The sum of no samples is \<open>0.0\<close>, and numpy
  gives NaN for \<open>0.0 / 0\<close>.
\<close>

fun fdiv_count :: "pyfloat \<Rightarrow> nat \<Rightarrow> pyfloat" where
  "fdiv_count (FReal a) n = (if n = 0 then FNaN else FReal (a / real n))"
| "fdiv_count f n = f"

text \<open>
  numpy, as data.py uses it: \<^verbatim>\<open>np.array(xs)\<close> of a flat list of numbers, \<^verbatim>\<open>.mean()\<close> and
  \<^verbatim>\<open>.std()\<close> with their default arguments (\<^verbatim>\<open>ddof=0\<close>: the squared deviations are divided
  by the number of samples). A list that holds anything but numbers has no numeric mean;
  the model raises TypeError for it. Nested lists are not modelled.
\<close>

definition np_array :: "pyval \<Rightarrow> py_error + pyfloat list" where
  "np_array a =
     (case a of
        PList xs \<Rightarrow>
          if list_all isinstance_NUMBER_TYPES xs
          then Inr (map (\<lambda>x. case py_float x of Inr f \<Rightarrow> f | Inl e \<Rightarrow> FNaN) xs)
          else Inl TypeError
      | _ \<Rightarrow> Inl TypeError)"

definition np_sum :: "pyfloat list \<Rightarrow> pyfloat" where
  "np_sum xs = foldl fadd (FReal 0) xs"

definition np_mean :: "pyfloat list \<Rightarrow> pyfloat" where
  "np_mean xs = fdiv_count (np_sum xs) (length xs)"

definition np_std :: "pyfloat list \<Rightarrow> pyfloat" where
  "np_std xs =
     (let m = np_mean xs;
          sq = map (\<lambda>x. fmul (fsub x m) (fsub x m)) xs
      in fsqrt (fdiv_count (np_sum sq) (length xs)))"

subsection \<open>Objects\<close>

text \<open>
  Modelled from the spec: \<^verbatim>\<open>RECORDED\<close> comes from the missing literals.py; the class
  docstring of \<^verbatim>\<open>ExperimentalValue\<close> gives its value, the key "recorded".
\<close>

definition RECORDED :: string where
  "RECORDED = ''recorded''"

text \<open>
  An instance carries the attributes of \<^verbatim>\<open>ExperimentalValue.__slots__\<close>; the subclasses
  add theirs. \<open>attr_x\<close> is the attribute \<^verbatim>\<open>_x\<close>. A value-error pair is a tuple.
\<close>

record ExperimentalValue_obj =
  attr_values :: "(string \<times> pyval \<times> pyval) list"
  attr_unit :: pyval
  attr_name :: pyval

text \<open>
  \<open>attr_class\<close> is \<^verbatim>\<open>__class__\<close>, which the setters assign to. \<open>attr_raw_data\<close> is the
  slot \<^verbatim>\<open>_raw_data\<close> that \<^verbatim>\<open>RepeatedlyMeasuredValue.__slots__\<close> declares, \<open>None\<close> while it
  is unassigned.
\<close>

datatype pyclass = MeasuredValue | RepeatedlyMeasuredValue

record MeasuredValue_obj = ExperimentalValue_obj +
  attr_class :: pyclass
  attr_raw_data :: "pyfloat list option"

record Function_obj = ExperimentalValue_obj +
  attr_error_method :: pyval
  attr_is_error_method_specified :: bool

text \<open>The slots a class adds to those of \<^verbatim>\<open>MeasuredValue\<close>.\<close>

fun slots_added :: "pyclass \<Rightarrow> string list" where
  "slots_added MeasuredValue = []"
| "slots_added RepeatedlyMeasuredValue = [''_raw_data'']"

text \<open>
  \<^verbatim>\<open>hasattr(self, "_raw_data")\<close>: the class has the slot and the slot is assigned.
\<close>

definition hasattr_raw_data :: "MeasuredValue_obj \<Rightarrow> bool" where
  "hasattr_raw_data self =
     (''_raw_data'' \<in> set (slots_added (attr_class self)) \<and> attr_raw_data self \<noteq> None)"

text \<open>
  \<^verbatim>\<open>self.__class__ = c\<close>. Python allows the assignment only between classes whose
  instances have the same layout; a class that adds a slot to its base has another layout
  than the base, and the assignment raises
  \<^verbatim>\<open>TypeError: __class__ assignment: 'MeasuredValue' object layout differs from
  'RepeatedlyMeasuredValue'\<close>.
\<close>

definition assign_class :: "MeasuredValue_obj \<Rightarrow> pyclass \<Rightarrow> py_error + MeasuredValue_obj" where
  "assign_class self c =
     (if slots_added (attr_class self) = slots_added c then Inr (self\<lparr>attr_class := c\<rparr>)
      else Inl TypeError)"

text \<open>
  \<^verbatim>\<open>MeasuredValue.__init__(self, value, error, unit="", name="")\<close> on a fresh instance of
  class \<open>c\<close>, after \<^verbatim>\<open>ExperimentalValue.__init__(unit, name)\<close>.
\<close>

definition MeasuredValue_init ::
  "pyclass \<Rightarrow> pyval \<Rightarrow> pyval \<Rightarrow> pyval \<Rightarrow> pyval \<Rightarrow> MeasuredValue_obj" where
  "MeasuredValue_init c v error unit name =
     \<lparr>attr_values = setitem [] RECORDED (v, error), attr_unit = unit, attr_name = name,
      attr_class = c, attr_raw_data = None\<rparr>"

text \<open>
  \<^verbatim>\<open>RepeatedlyMeasuredValue.__init__(self, measurement_array, unit, name)\<close>. Its first
  statement is \<^verbatim>\<open>super().__init__(unit, name)\<close>: the two arguments land on the parameters
  \<^verbatim>\<open>value\<close> and \<^verbatim>\<open>error\<close> of the base constructor, whose \<^verbatim>\<open>unit\<close> and \<^verbatim>\<open>name\<close> take
  their defaults.
\<close>

definition RepeatedlyMeasuredValue_init ::
  "pyval \<Rightarrow> pyval \<Rightarrow> pyval \<Rightarrow> py_error + MeasuredValue_obj" where
  "RepeatedlyMeasuredValue_init measurement_array unit name =
     (let self = MeasuredValue_init RepeatedlyMeasuredValue unit name (PStr []) (PStr [])
      in case np_array measurement_array of
           Inl e \<Rightarrow> Inl e
         | Inr measurements \<Rightarrow>
             Inr (self\<lparr>attr_values :=
                         setitem (attr_values self) RECORDED
                           (PFloat (np_mean measurements), PFloat (np_std measurements)),
                       attr_raw_data := Some measurements\<rparr>))"

text \<open>The properties \<^verbatim>\<open>value\<close>, \<^verbatim>\<open>error\<close> and \<^verbatim>\<open>raw_data\<close>.\<close>

definition MeasuredValue_value :: "MeasuredValue_obj \<Rightarrow> py_error + pyval" where
  "MeasuredValue_value self =
     (case getitem (attr_values self) RECORDED of Inl e \<Rightarrow> Inl e | Inr p \<Rightarrow> Inr (fst p))"

definition MeasuredValue_error :: "MeasuredValue_obj \<Rightarrow> py_error + pyval" where
  "MeasuredValue_error self =
     (case getitem (attr_values self) RECORDED of Inl e \<Rightarrow> Inl e | Inr p \<Rightarrow> Inr (snd p))"

definition RepeatedlyMeasuredValue_raw_data :: "MeasuredValue_obj \<Rightarrow> py_error + pyfloat list" where
  "RepeatedlyMeasuredValue_raw_data self =
     (if attr_class self = RepeatedlyMeasuredValue then
        (case attr_raw_data self of None \<Rightarrow> Inl AttributeError | Some d \<Rightarrow> Inr d)
      else Inl AttributeError)"

subsection \<open>The setters of a measurement\<close>

definition value_setter_msg :: string where
  "value_setter_msg =
     ''Error: invalid input! You can only set the value of a measurement to a number''"

definition value_setter_warning :: string where
  "value_setter_warning =
     ''Warning: You are trying to modify the value of a repeated measurement. Doing so has ''
     @ ''caused you to lose the original list of raw measurement data''"

definition error_setter_msg :: string where
  "error_setter_msg =
     ''Error: invalid input! You can only set the error of a measurement to a positive number''"

definition error_setter_warning :: string where
  "error_setter_warning =
     ''Warning: You are trying to modify the uncertainty of a repeated measurement. Doing so has ''
     @ ''caused you to lose the original list of raw measurement data''"

definition relative_error_setter_msg :: string where
  "relative_error_setter_msg =
     ''Error: invalid input! The relative uncertainty of a measurement has to be a positive number''"

text \<open>
  The tail the three setters share: the \<^verbatim>\<open>hasattr\<close> test, the warning, and the cast
  \<^verbatim>\<open>self.__class__ = MeasuredValue\<close>. The pair has been stored before, and the warning is
  printed before the cast.
\<close>

definition cast_to_base :: "string \<Rightarrow> MeasuredValue_obj \<Rightarrow> MeasuredValue_obj outcome" where
  "cast_to_base warning self =
     (if hasattr_raw_data self then
        (case assign_class self MeasuredValue of
           Inl e \<Rightarrow> \<lparr>result = self, printed = [warning], raised = Some e\<rparr>
         | Inr self' \<Rightarrow> prints warning self')
      else returns self)"

definition MeasuredValue_value_setter ::
  "MeasuredValue_obj \<Rightarrow> pyval \<Rightarrow> MeasuredValue_obj outcome" where
  "MeasuredValue_value_setter self new_value =
     (if isinstance_NUMBER_TYPES new_value then
        (case getitem (attr_values self) RECORDED of
           Inl e \<Rightarrow> raises e self
         | Inr old \<Rightarrow>
             cast_to_base value_setter_warning
               (self\<lparr>attr_values := setitem (attr_values self) RECORDED (new_value, snd old)\<rparr>))
      else prints value_setter_msg self)"

definition MeasuredValue_error_setter ::
  "MeasuredValue_obj \<Rightarrow> pyval \<Rightarrow> MeasuredValue_obj outcome" where
  "MeasuredValue_error_setter self new_error =
     (if isinstance_NUMBER_TYPES new_error \<and> gt_zero new_error then
        (case getitem (attr_values self) RECORDED of
           Inl e \<Rightarrow> raises e self
         | Inr old \<Rightarrow>
             cast_to_base error_setter_warning
               (self\<lparr>attr_values := setitem (attr_values self) RECORDED (fst old, new_error)\<rparr>))
      else prints error_setter_msg self)"

text \<open>
  \<^verbatim>\<open>new_error = value[0] * float(relative_error)\<close>: the stored value times a positive
  factor, so a negative value gives a negative uncertainty.
\<close>

definition MeasuredValue_relative_error_setter ::
  "MeasuredValue_obj \<Rightarrow> pyval \<Rightarrow> MeasuredValue_obj outcome" where
  "MeasuredValue_relative_error_setter self relative_error =
     (case getitem (attr_values self) RECORDED of
        Inl e \<Rightarrow> raises e self
      | Inr old \<Rightarrow>
          if isinstance_NUMBER_TYPES relative_error \<and> gt_zero relative_error then
            (case py_float (fst old) of
               Inl e \<Rightarrow> raises e self
             | Inr v \<Rightarrow>
                 (case py_float relative_error of
                    Inl e \<Rightarrow> raises e self
                  | Inr r \<Rightarrow>
                      cast_to_base error_setter_warning
                        (self\<lparr>attr_values :=
                                 setitem (attr_values self) RECORDED
                                   (fst old, PFloat (fmul v r))\<rparr>)))
          else prints relative_error_setter_msg self)"

subsection \<open>The factory\<close>

definition Measurement_msg :: string where
  "Measurement_msg =
     ''Error: invalid input! Input must be either a single array of values, or the central value ''
     @ ''and its uncertainty in one measurement''"

text \<open>
  \<^verbatim>\<open>Measurement(*args, **kwargs)\<close>. The result is the object returned, \<open>None\<close> for
  Python's None. In each branch the constructor's arguments are evaluated from left to
  right before the constructor runs: the conversions \<^verbatim>\<open>float(args[i])\<close>, then
  \<^verbatim>\<open>kwargs["unit"]\<close>, then \<^verbatim>\<open>kwargs["name"]\<close>, each of which raises KeyError on a missing
  key.
\<close>

definition Measurement ::
  "pyval list \<Rightarrow> (string \<times> pyval) list \<Rightarrow> MeasuredValue_obj option outcome" where
  "Measurement args kwargs =
     (if length args = 1 \<and> isinstance_ARRAY_TYPES (args ! 0) then
        (case getitem kwargs ''unit'' of
           Inl e \<Rightarrow> raises e None
         | Inr unit \<Rightarrow>
             (case getitem kwargs ''name'' of
                Inl e \<Rightarrow> raises e None
              | Inr name \<Rightarrow>
                  (case RepeatedlyMeasuredValue_init (args ! 0) unit name of
                     Inl e \<Rightarrow> raises e None
                   | Inr obj \<Rightarrow> returns (Some obj))))
      else if length args = 1 \<and> isinstance_NUMBER_TYPES (args ! 0) then
        (case py_float (args ! 0) of
           Inl e \<Rightarrow> raises e None
         | Inr v \<Rightarrow>
             (case getitem kwargs ''unit'' of
                Inl e \<Rightarrow> raises e None
              | Inr unit \<Rightarrow>
                  (case getitem kwargs ''name'' of
                     Inl e \<Rightarrow> raises e None
                   | Inr name \<Rightarrow>
                       returns (Some (MeasuredValue_init MeasuredValue
                                        (PFloat v) (PInt 0) unit name)))))
      else if length args = 2 \<and> isinstance_NUMBER_TYPES (args ! 0)
                \<and> isinstance_NUMBER_TYPES (args ! 1) then
        (case py_float (args ! 0) of
           Inl e \<Rightarrow> raises e None
         | Inr v \<Rightarrow>
             (case py_float (args ! 1) of
                Inl e \<Rightarrow> raises e None
              | Inr u \<Rightarrow>
                  (case getitem kwargs ''unit'' of
                     Inl e \<Rightarrow> raises e None
                   | Inr unit \<Rightarrow>
                       (case getitem kwargs ''name'' of
                          Inl e \<Rightarrow> raises e None
                        | Inr name \<Rightarrow>
                            returns (Some (MeasuredValue_init MeasuredValue
                                             (PFloat v) (PFloat u) unit name))))))
      else prints Measurement_msg None)"

subsection \<open>Results of operations, and printing\<close>

text \<open>
  \<^verbatim>\<open>Function.__init__(self, propagated_results, unit="", name="", error_method=None)\<close>.
  It reads the configuration store when no error method is given.
\<close>

definition Function_init ::
  "config \<Rightarrow> (string \<times> pyval \<times> pyval) list \<Rightarrow> pyval \<Rightarrow> pyval \<Rightarrow> pyval
     \<Rightarrow> py_error + Function_obj" where
  "Function_init c propagated_results unit name error_method =
     (if truthy error_method then
        Inr \<lparr>attr_values = propagated_results, attr_unit = unit, attr_name = name,
             attr_error_method = error_method, attr_is_error_method_specified = True\<rparr>
      else
        (case get_error_method c of
           Inl e \<Rightarrow> Inl e
         | Inr m \<Rightarrow>
             Inr \<lparr>attr_values = propagated_results, attr_unit = unit, attr_name = name,
                  attr_error_method = m, attr_is_error_method_specified = False\<rparr>))"

text \<open>
  \<^verbatim>\<open>qexpy/utils/printing.py\<close> is missing: \<^verbatim>\<open>printing.get_printer()\<close> is the parameter
  \<open>get_printer\<close>, a function of the store (where the print style and the significant
  figures live) that gives the formatter of a pair.

  Both \<^verbatim>\<open>_print_value\<close> methods end with the same two statements, the test for infinity
  and the call of the printer; \<open>print_pair\<close> is that tail.
\<close>

definition print_pair ::
  "(config \<Rightarrow> pyval \<times> pyval \<Rightarrow> string) \<Rightarrow> config \<Rightarrow> pyval \<times> pyval \<Rightarrow> string" where
  "print_pair get_printer c p = (if eq_inf (fst p) then ''inf'' else get_printer c p)"

definition MeasuredValue_print_value ::
  "(config \<Rightarrow> pyval \<times> pyval \<Rightarrow> string) \<Rightarrow> config \<Rightarrow> MeasuredValue_obj
     \<Rightarrow> py_error + string" where
  "MeasuredValue_print_value get_printer c self =
     (case getitem (attr_values self) RECORDED of
        Inl e \<Rightarrow> Inl e
      | Inr p \<Rightarrow> Inr (print_pair get_printer c p))"

text \<open>The first statement of \<^verbatim>\<open>Function._print_value\<close>: the pair it selects.\<close>

definition Function_selected_pair :: "config \<Rightarrow> Function_obj \<Rightarrow> py_error + pyval \<times> pyval" where
  "Function_selected_pair c self =
     (if attr_is_error_method_specified self then
        (case enum_value (attr_error_method self) of
           Inl e \<Rightarrow> Inl e
         | Inr k \<Rightarrow> getitem (attr_values self) k)
      else
        (case get_error_method c of
           Inl e \<Rightarrow> Inl e
         | Inr m \<Rightarrow>
             (case enum_value m of
                Inl e \<Rightarrow> Inl e
              | Inr k \<Rightarrow> getitem (attr_values self) k)))"

definition Function_print_value ::
  "(config \<Rightarrow> pyval \<times> pyval \<Rightarrow> string) \<Rightarrow> config \<Rightarrow> Function_obj \<Rightarrow> py_error + string" where
  "Function_print_value get_printer c self =
     (case Function_selected_pair c self of
        Inl e \<Rightarrow> Inl e
      | Inr p \<Rightarrow> Inr (print_pair get_printer c p))"

section \<open>Properties\<close>

subsection \<open>Auxiliary definitions\<close>

text \<open>
  The shape of the store that the four significant-figure accessors rely on: the entry
  \<^verbatim>\<open>config[SIG_FIGS]\<close> exists and is a dict.
\<close>

definition config_ok :: "config \<Rightarrow> bool" where
  "config_ok c = (case map_of c SIG_FIGS of Some (PDict d) \<Rightarrow> True | _ \<Rightarrow> False)"

text \<open>
  The repeated measurement \<^verbatim>\<open>Measurement([1, 3], unit="m", name="x")\<close>, as the factory
  builds it: mean 2, standard deviation 1, the raw data kept, and neither keyword stored.
\<close>

definition sample :: MeasuredValue_obj where
  "sample =
     \<lparr>attr_values = [(''recorded'', (PFloat (FReal 2), PFloat (FReal 1)))],
      attr_unit = PStr [], attr_name = PStr [], attr_class = RepeatedlyMeasuredValue,
      attr_raw_data = Some [FReal 1, FReal 3]\<rparr>"

text \<open>Three propagated pairs, one per error method, with values 1, 3 and 5.\<close>

definition three_results :: "(string \<times> pyval \<times> pyval) list" where
  "three_results =
     [(''derivative'', (PFloat (FReal 1), PFloat (FReal 2))),
      (''min_max'', (PFloat (FReal 3), PFloat (FReal 4))),
      (''monte_carlo'', (PFloat (FReal 5), PFloat (FReal 6)))]"

text \<open>A result of an operation whose derivative-method value is infinite.\<close>

definition infinite_results :: "(string \<times> pyval \<times> pyval) list" where
  "infinite_results =
     [(''derivative'', (PFloat FPosInf, PFloat (FReal 2))),
      (''min_max'', (PFloat (FReal 3), PFloat (FReal 4))),
      (''monte_carlo'', (PFloat (FReal 5), PFloat (FReal 6)))]"

subsection \<open>Outcomes and dictionaries\<close>

lemma result_simps [simp]:
  "result (returns s) = s" "result (prints m s) = s" "result (raises e s) = s"
  "printed (returns s) = []" "printed (prints m s) = [m]" "printed (raises e s) = []"
  "raised (returns s) = None" "raised (prints m s) = None" "raised (raises e s) = Some e"
  by (simp_all add: returns_def prints_def raises_def)

lemma except_result [simp]: "result (except_ValueError_TypeError msg e c) = c"
  by (simp add: except_ValueError_TypeError_def)

lemmas key_defs = ERROR_METHOD_def PRINT_STYLE_def SIG_FIGS_def SIG_FIG_MODE_def SIG_FIG_VALUE_def

lemma config_okE: "config_ok c \<Longrightarrow> \<exists>d. map_of c SIG_FIGS = Some (PDict d)"
  by (auto simp: config_ok_def split: option.splits pyval.splits)

lemma config_ok_config: "config_ok config"
  by (simp add: config_ok_def config_def SIG_FIGS_def)

lemma getitem_setitem: "getitem (setitem d k v) k' = (if k' = k then Inr v else getitem d k')"
  by (simp add: getitem_def setitem_def update_conv')

lemma config_ok_setitem_other:
  "k \<noteq> SIG_FIGS \<Longrightarrow> config_ok (setitem c k v) = config_ok c"
  by (simp add: config_ok_def setitem_def update_conv')

lemma config_ok_setitem_dict: "config_ok (setitem c SIG_FIGS (PDict d))"
  by (simp add: config_ok_def setitem_def update_conv')

lemma set_sig_figs_entry_ok:
  assumes "config_ok c"
  shows "\<exists>d. getitem c SIG_FIGS = Inr (PDict d) \<and>
           set_sig_figs_entry c k v = Inr (setitem c SIG_FIGS (PDict (setitem d k v)))"
proof -
  from assms obtain d where "map_of c SIG_FIGS = Some (PDict d)"
    using config_okE by blast
  then show ?thesis
    by (simp add: set_sig_figs_entry_def getitem_def)
qed

lemma set_sig_figs_entry_preserves:
  "config_ok c \<Longrightarrow> set_sig_figs_entry c k v = Inr c' \<Longrightarrow> config_ok c'"
  using set_sig_figs_entry_ok [of c k v] by (auto simp: config_ok_setitem_dict)

subsection \<open>The configuration store\<close>

lemma reset_ok:
  assumes "config_ok c"
  shows "\<exists>c'. reset_default_configuration c = returns c' \<and> config_ok c' \<and>
           get_error_method c' = Inr (PErrorMethod DERIVATIVE) \<and>
           get_print_style c' = Inr (PPrintStyle DEFAULT) \<and>
           get_sig_fig_mode c' = Inr (PSigFigMode AUTOMATIC) \<and>
           get_sig_fig_value c' = Inr (PInt 1)"
proof -
  define c2 where "c2 = setitem (setitem c ERROR_METHOD (PErrorMethod DERIVATIVE)) PRINT_STYLE (PPrintStyle DEFAULT)"
  have ok2: "config_ok c2"
    using assms by (simp add: c2_def config_ok_setitem_other key_defs)
  then obtain d where d: "set_sig_figs_entry c2 SIG_FIG_MODE (PSigFigMode AUTOMATIC) =
      Inr (setitem c2 SIG_FIGS (PDict (setitem d SIG_FIG_MODE (PSigFigMode AUTOMATIC))))"
    using set_sig_figs_entry_ok by blast
  define d3 where "d3 = setitem d SIG_FIG_MODE (PSigFigMode AUTOMATIC)"
  define c3 where "c3 = setitem c2 SIG_FIGS (PDict d3)"
  have g3: "getitem c3 SIG_FIGS = Inr (PDict d3)"
    by (simp add: c3_def getitem_setitem)
  define c4 where "c4 = setitem c3 SIG_FIGS (PDict (setitem d3 SIG_FIG_VALUE (PInt 1)))"
  have s4: "set_sig_figs_entry c3 SIG_FIG_VALUE (PInt 1) = Inr c4"
    by (simp add: set_sig_figs_entry_def g3 c4_def)
  have r: "reset_default_configuration c = returns c4"
    using d s4 by (simp add: reset_default_configuration_def c2_def [symmetric] Let_def d3_def [symmetric] c3_def [symmetric])
  have "get_error_method c4 = Inr (PErrorMethod DERIVATIVE)"
    by (simp add: get_error_method_def c4_def c3_def c2_def getitem_setitem key_defs)
  moreover have "get_print_style c4 = Inr (PPrintStyle DEFAULT)"
    by (simp add: get_print_style_def c4_def c3_def c2_def getitem_setitem key_defs)
  moreover have "get_sig_fig_mode c4 = Inr (PSigFigMode AUTOMATIC)"
    by (simp add: get_sig_fig_mode_def c4_def d3_def getitem_setitem key_defs)
  moreover have "get_sig_fig_value c4 = Inr (PInt 1)"
    by (simp add: get_sig_fig_value_def c4_def getitem_setitem)
  moreover have "config_ok c4"
    by (simp add: c4_def config_ok_setitem_dict)
  ultimately show ?thesis using r by blast
qed

lemma set_sig_figs_accept:
  assumes "config_ok c" and "py_int v = Inr n" and "0 < n"
  shows "\<exists>d. getitem c SIG_FIGS = Inr (PDict d) \<and>
     set_sig_figs_for_value c v =
       returns (setitem c SIG_FIGS (PDict (setitem (setitem d SIG_FIG_VALUE (PInt n)) SIG_FIG_MODE (PSigFigMode VALUE)))) \<and>
     set_sig_figs_for_error c v =
       returns (setitem c SIG_FIGS (PDict (setitem (setitem d SIG_FIG_VALUE (PInt n)) SIG_FIG_MODE (PSigFigMode ERROR))))"
proof -
  from assms(1) obtain d where d: "getitem c SIG_FIGS = Inr (PDict d)"
    using set_sig_figs_entry_ok by blast
  have e1: "set_sig_figs_entry c SIG_FIG_VALUE (PInt n) = Inr (setitem c SIG_FIGS (PDict (setitem d SIG_FIG_VALUE (PInt n))))"
    by (simp add: set_sig_figs_entry_def d)
  have e2: "set_sig_figs_entry (setitem c SIG_FIGS (PDict d')) k w = Inr (setitem c SIG_FIGS (PDict (setitem d' k w)))" for d' k w
    by (simp add: set_sig_figs_entry_def getitem_setitem) (simp add: setitem_def)
  show ?thesis
    using assms(2,3) d by (simp add: set_sig_figs_for_value_def set_sig_figs_for_error_def e1 e2)
qed

lemma set_sig_figs_ok:
  assumes ok: "config_ok c"
  shows "config_ok (result (set_sig_figs_for_value c v))"
    and "config_ok (result (set_sig_figs_for_error c v))"
proof -
  have "config_ok (result (set_sig_figs_for_value c v)) \<and>
        config_ok (result (set_sig_figs_for_error c v))"
  proof (cases "\<exists>n. py_int v = Inr n \<and> 0 < n")
    case True
    then obtain n where n: "py_int v = Inr n" "0 < n" by blast
    from set_sig_figs_accept [OF ok n] show ?thesis
      by (auto simp: config_ok_setitem_dict)
  next
    case False
    then show ?thesis using ok
      by (auto simp: set_sig_figs_for_value_def set_sig_figs_for_error_def split: sum.splits)
  qed
  then show "config_ok (result (set_sig_figs_for_value c v))"
    and "config_ok (result (set_sig_figs_for_error c v))" by simp_all
qed

lemma run_call_ok:
  assumes ok: "config_ok c"
  shows "config_ok (result (run_call c x))"
proof (cases x)
  case (SetErrorMethod v)
  then show ?thesis using ok
    by (simp add: set_error_method_def config_ok_setitem_other key_defs)
next
  case (SetPrintStyle v)
  then show ?thesis using ok
    by (simp add: set_print_style_def config_ok_setitem_other key_defs)
next
  case (SetSigFigsForValue v)
  then show ?thesis using set_sig_figs_ok(1) [OF ok] by simp
next
  case (SetSigFigsForError v)
  then show ?thesis using set_sig_figs_ok(2) [OF ok] by simp
next
  case ResetDefault
  then show ?thesis using reset_ok [OF ok] by auto
qed


text \<open>Every store reached from the initial one by calls of the setters has that shape.\<close>

lemma run_calls_ok: "config_ok c \<Longrightarrow> config_ok (run_calls c xs)"
  by (induction xs arbitrary: c) (simp_all add: run_call_ok)

text \<open>
  Claim C1. \<^verbatim>\<open>set_print_style(style)\<close> with a member of \<^verbatim>\<open>PrintStyle\<close> should make
  \<^verbatim>\<open>get_print_style()\<close> return that style and leave the error method alone. The code
  stores the style under \<^verbatim>\<open>ERROR_METHOD\<close>: after \<^verbatim>\<open>set_print_style(PrintStyle.LATEX)\<close> on
  the initial store, the print style is still DEFAULT and \<^verbatim>\<open>get_error_method()\<close>
  returns \<^verbatim>\<open>PrintStyle.LATEX\<close>.
\<close>

theorem set_print_style_writes_error_method_slot:
  "raised (set_print_style config (PPrintStyle LATEX)) = None \<and>
   printed (set_print_style config (PPrintStyle LATEX)) = [] \<and>
   get_print_style (result (set_print_style config (PPrintStyle LATEX))) = Inr (PPrintStyle DEFAULT) \<and>
   get_error_method (result (set_print_style config (PPrintStyle LATEX))) = Inr (PPrintStyle LATEX)"
  by (simp add: set_print_style_def config_def get_print_style_def get_error_method_def
      key_defs getitem_def setitem_def)

text \<open>The rejecting half of \<^verbatim>\<open>set_print_style\<close> does what it should.\<close>

lemma set_print_style_rejects:
  "\<not> isinstance_PrintStyle v \<Longrightarrow> set_print_style c v = prints print_style_msg c"
  by (simp add: set_print_style_def)

text \<open>
  Claim C7. After any sequence of setter calls on the initial store,
  \<^verbatim>\<open>reset_default_configuration()\<close> returns normally, and the four getters then return
  DERIVATIVE, DEFAULT, AUTOMATIC and 1.
\<close>

theorem reset_default_configuration_restores_defaults:
  "raised (reset_default_configuration (run_calls config calls)) = None \<and>
   get_error_method (result (reset_default_configuration (run_calls config calls)))
     = Inr (PErrorMethod DERIVATIVE) \<and>
   get_print_style (result (reset_default_configuration (run_calls config calls)))
     = Inr (PPrintStyle DEFAULT) \<and>
   get_sig_fig_mode (result (reset_default_configuration (run_calls config calls)))
     = Inr (PSigFigMode AUTOMATIC) \<and>
   get_sig_fig_value (result (reset_default_configuration (run_calls config calls)))
     = Inr (PInt 1)"
  using reset_ok [OF run_calls_ok [OF config_ok_config, of calls]] by auto

text \<open>
  Claim C8. On a store of the usual shape, and for an input \<open>v\<close> that \<^verbatim>\<open>int(v)\<close> turns
  into a positive integer \<open>n\<close> (a positive int, or a string of digits for one),
  \<^verbatim>\<open>set_sig_figs_for_value\<close> stores \<open>n\<close> and the mode VALUE, \<^verbatim>\<open>set_sig_figs_for_error\<close>
  stores \<open>n\<close> and the mode ERROR, and nothing is printed. For an input that \<^verbatim>\<open>int\<close> turns
  into zero or a negative integer, or for which \<^verbatim>\<open>int\<close> raises ValueError (a string that
  is no number) or TypeError (None, a list), each setter prints its error message and the
  store is the one before the call.
\<close>

theorem set_sig_figs_accepts_positive_rejects_rest:
  "config_ok c \<Longrightarrow>
   (py_int v = Inr n \<and> 0 < n \<longrightarrow>
      raised (set_sig_figs_for_value c v) = None \<and> printed (set_sig_figs_for_value c v) = [] \<and>
      get_sig_fig_value (result (set_sig_figs_for_value c v)) = Inr (PInt n) \<and>
      get_sig_fig_mode (result (set_sig_figs_for_value c v)) = Inr (PSigFigMode VALUE) \<and>
      raised (set_sig_figs_for_error c v) = None \<and> printed (set_sig_figs_for_error c v) = [] \<and>
      get_sig_fig_value (result (set_sig_figs_for_error c v)) = Inr (PInt n) \<and>
      get_sig_fig_mode (result (set_sig_figs_for_error c v)) = Inr (PSigFigMode ERROR)) \<and>
   ((py_int v = Inr n \<and> n \<le> 0) \<or> py_int v = Inl ValueError \<or> py_int v = Inl TypeError \<longrightarrow>
      set_sig_figs_for_value c v = prints sig_figs_value_msg c \<and>
      set_sig_figs_for_error c v = prints sig_figs_error_msg c)"
proof (intro conjI impI)
  assume ok: "config_ok c" and "py_int v = Inr n \<and> 0 < n"
  then have n: "py_int v = Inr n" "0 < n" by simp_all
  from set_sig_figs_accept [OF ok n] obtain d where
    v: "set_sig_figs_for_value c v = returns (setitem c SIG_FIGS (PDict (setitem (setitem d SIG_FIG_VALUE (PInt n)) SIG_FIG_MODE (PSigFigMode VALUE))))"
    and e: "set_sig_figs_for_error c v = returns (setitem c SIG_FIGS (PDict (setitem (setitem d SIG_FIG_VALUE (PInt n)) SIG_FIG_MODE (PSigFigMode ERROR))))"
    by blast
  show "raised (set_sig_figs_for_value c v) = None" "printed (set_sig_figs_for_value c v) = []"
    "raised (set_sig_figs_for_error c v) = None" "printed (set_sig_figs_for_error c v) = []"
    by (simp_all add: v e)
  show "get_sig_fig_value (result (set_sig_figs_for_value c v)) = Inr (PInt n)"
    by (simp add: v get_sig_fig_value_def getitem_setitem key_defs)
  show "get_sig_fig_mode (result (set_sig_figs_for_value c v)) = Inr (PSigFigMode VALUE)"
    by (simp add: v get_sig_fig_mode_def getitem_setitem key_defs)
  show "get_sig_fig_value (result (set_sig_figs_for_error c v)) = Inr (PInt n)"
    by (simp add: e get_sig_fig_value_def getitem_setitem key_defs)
  show "get_sig_fig_mode (result (set_sig_figs_for_error c v)) = Inr (PSigFigMode ERROR)"
    by (simp add: e get_sig_fig_mode_def getitem_setitem key_defs)
next
  assume r: "(py_int v = Inr n \<and> n \<le> 0) \<or> py_int v = Inl ValueError \<or> py_int v = Inl TypeError"
  then show "set_sig_figs_for_value c v = prints sig_figs_value_msg c"
    by (auto simp: set_sig_figs_for_value_def except_ValueError_TypeError_def)
  from r show "set_sig_figs_for_error c v = prints sig_figs_error_msg c"
    by (auto simp: set_sig_figs_for_error_def except_ValueError_TypeError_def)
qed

theorem set_sig_figs_accepts_positive_rejects_rest_witness:
  "config_ok config \<and> py_int (PStr ''12'') = Inr 12 \<and> (0::int) < 12 \<and>
   get_sig_fig_value (result (set_sig_figs_for_value config (PStr ''12''))) = Inr (PInt 12) \<and>
   get_sig_fig_mode (result (set_sig_figs_for_value config (PStr ''12''))) = Inr (PSigFigMode VALUE) \<and>
   get_sig_fig_mode (result (set_sig_figs_for_error config (PInt 3))) = Inr (PSigFigMode ERROR) \<and>
   set_sig_figs_for_value config (PInt 0) = prints sig_figs_value_msg config \<and>
   set_sig_figs_for_error config (PInt (- 2)) = prints sig_figs_error_msg config \<and>
   set_sig_figs_for_value config (PStr ''abc'') = prints sig_figs_value_msg config \<and>
   set_sig_figs_for_error config PNone = prints sig_figs_error_msg config"
proof -
  note ok = config_ok_config
  have a: "py_int (PStr ''12'') = Inr 12 \<and> (0::int) < 12"
    by (simp add: strip_def is_space_def digit_val_def)
  have b: "py_int (PInt 3) = Inr 3 \<and> (0::int) < 3" by simp
  have c: "(py_int (PInt 0) = Inr 0 \<and> (0::int) \<le> 0) \<or> py_int (PInt 0) = Inl ValueError
             \<or> py_int (PInt 0) = Inl TypeError" by simp
  have d: "(py_int (PInt (- 2)) = Inr (- 2) \<and> (- 2::int) \<le> 0) \<or> py_int (PInt (- 2)) = Inl ValueError
             \<or> py_int (PInt (- 2)) = Inl TypeError" by simp
  have e: "(py_int (PStr ''abc'') = Inr 0 \<and> (0::int) \<le> 0) \<or> py_int (PStr ''abc'') = Inl ValueError
             \<or> py_int (PStr ''abc'') = Inl TypeError"
    by (simp add: strip_def is_space_def digit_val_def)
  have f: "(py_int PNone = Inr 0 \<and> (0::int) \<le> 0) \<or> py_int PNone = Inl ValueError
             \<or> py_int PNone = Inl TypeError" by simp
  from set_sig_figs_accepts_positive_rejects_rest [OF ok, of "PStr ''12''" 12] a
       set_sig_figs_accepts_positive_rejects_rest [OF ok, of "PInt 3" 3] b
       set_sig_figs_accepts_positive_rejects_rest [OF ok, of "PInt 0" 0] c
       set_sig_figs_accepts_positive_rejects_rest [OF ok, of "PInt (- 2)" "- 2"] d
       set_sig_figs_accepts_positive_rejects_rest [OF ok, of "PStr ''abc''" 0] e
       set_sig_figs_accepts_positive_rejects_rest [OF ok, of PNone 0] f
  show ?thesis using ok by blast
qed

text \<open>
  The one remaining case: \<^verbatim>\<open>int\<close> raises OverflowError for a float infinity, and the
  handler lets it pass. The store is unchanged and nothing is printed.
\<close>

lemma set_sig_figs_overflow:
  assumes "py_int v = Inl OverflowError"
  shows "set_sig_figs_for_value c v = raises OverflowError c"
    and "set_sig_figs_for_error c v = raises OverflowError c"
  using assms
  by (simp_all add: set_sig_figs_for_value_def set_sig_figs_for_error_def
      except_ValueError_TypeError_def)

subsection \<open>Results of operations and printing\<close>

lemma Function_init_specified:
  "Function_init c0 res unit name (PErrorMethod em) =
     Inr \<lparr>attr_values = res, attr_unit = unit, attr_name = name,
          attr_error_method = PErrorMethod em, attr_is_error_method_specified = True\<rparr>"
  by (simp add: Function_init_def)

lemma Function_init_default:
  "get_error_method c0 = Inr m0 \<Longrightarrow>
   Function_init c0 res unit name PNone =
     Inr \<lparr>attr_values = res, attr_unit = unit, attr_name = name,
          attr_error_method = m0, attr_is_error_method_specified = False\<rparr>"
  by (simp add: Function_init_def)

text \<open>
  Claim C4. A \<^verbatim>\<open>Function\<close> built with an error method \<open>em\<close> selects, whenever it is
  printed and whatever the store \<open>c1\<close> holds then, the pair stored under that method,
  and prints it. A \<^verbatim>\<open>Function\<close> built without one (the store \<open>c0\<close> of that moment
  having any error method \<open>m0\<close>) selects the pair of the method that the store \<open>c1\<close>
  holds when it is printed: the store at construction has no part in the result.
\<close>

theorem Function_print_value_pinned_or_current:
  "(\<exists>f. Function_init c0 res unit name (PErrorMethod em) = Inr f \<and>
        Function_selected_pair c1 f = getitem res (ErrorMethod_value em) \<and>
        Function_print_value gp c1 f =
          (case getitem res (ErrorMethod_value em) of
             Inl e \<Rightarrow> Inl e | Inr p \<Rightarrow> Inr (print_pair gp c1 p))) \<and>
   (get_error_method c0 = Inr m0 \<longrightarrow>
      (\<exists>f. Function_init c0 res unit name PNone = Inr f \<and>
         (get_error_method c1 = Inr (PErrorMethod em) \<longrightarrow>
            Function_selected_pair c1 f = getitem res (ErrorMethod_value em) \<and>
            Function_print_value gp c1 f =
              (case getitem res (ErrorMethod_value em) of
                 Inl e \<Rightarrow> Inl e | Inr p \<Rightarrow> Inr (print_pair gp c1 p)))))"
  by (simp add: Function_init_specified Function_init_default Function_selected_pair_def
      Function_print_value_def)

theorem Function_print_value_pinned_or_current_witness:
  "get_error_method config = Inr (PErrorMethod DERIVATIVE) \<and>
   get_error_method (result (set_error_method config (PErrorMethod MONTE_CARLO))) = Inr (PErrorMethod MONTE_CARLO) \<and>
   (\<exists>f. Function_init config three_results (PStr []) (PStr []) (PErrorMethod MIN_MAX) = Inr f \<and>
      Function_selected_pair (result (set_error_method config (PErrorMethod MONTE_CARLO))) f
        = Inr (PFloat (FReal 3), PFloat (FReal 4))) \<and>
   (\<exists>f. Function_init config three_results (PStr []) (PStr []) PNone = Inr f \<and>
      Function_selected_pair (result (set_error_method config (PErrorMethod MONTE_CARLO))) f
        = Inr (PFloat (FReal 5), PFloat (FReal 6)))"
proof -
  let ?c1 = "result (set_error_method config (PErrorMethod MONTE_CARLO))"
  have a: "get_error_method config = Inr (PErrorMethod DERIVATIVE)"
    by (simp add: get_error_method_def config_def getitem_def ERROR_METHOD_def)
  have b: "get_error_method ?c1 = Inr (PErrorMethod MONTE_CARLO)"
    by (simp add: set_error_method_def get_error_method_def getitem_setitem)
  have g1: "getitem three_results (ErrorMethod_value MIN_MAX) = Inr (PFloat (FReal 3), PFloat (FReal 4))"
    by (simp add: three_results_def getitem_def)
  have g2: "getitem three_results (ErrorMethod_value MONTE_CARLO) = Inr (PFloat (FReal 5), PFloat (FReal 6))"
    by (simp add: three_results_def getitem_def)
  from Function_print_value_pinned_or_current [of config three_results "PStr []" "PStr []" MIN_MAX ?c1 undefined "PErrorMethod DERIVATIVE"]
       Function_print_value_pinned_or_current [of config three_results "PStr []" "PStr []" MONTE_CARLO ?c1 undefined "PErrorMethod DERIVATIVE"]
       a b g1 g2
  show ?thesis by (simp del: ErrorMethod_value.simps) blast
qed

text \<open>
  Claim C9. A measurement whose stored value is positive infinity prints as \<^verbatim>\<open>inf\<close>, and
  so does a \<^verbatim>\<open>Function\<close> whose selected pair has the value positive infinity, for every
  printer and every store (print style, significant-figure mode and value).
\<close>

theorem print_value_of_infinity:
  "(MeasuredValue_value m = Inr (PFloat FPosInf) \<longrightarrow>
      MeasuredValue_print_value gp c m = Inr ''inf'') \<and>
   (Function_selected_pair c f = Inr (PFloat FPosInf, e) \<longrightarrow>
      Function_print_value gp c f = Inr ''inf'')"
  by (auto simp: MeasuredValue_value_def MeasuredValue_print_value_def Function_print_value_def
      print_pair_def split: sum.splits)

theorem print_value_of_infinity_witness:
  "MeasuredValue_value
     (MeasuredValue_init MeasuredValue (PFloat FPosInf) (PInt 0) (PStr []) (PStr []))
     = Inr (PFloat FPosInf) \<and>
   MeasuredValue_print_value (\<lambda>c p. ''formatted'') config
     (MeasuredValue_init MeasuredValue (PFloat FPosInf) (PInt 0) (PStr []) (PStr []))
     = Inr ''inf'' \<and>
   Function_selected_pair config
     \<lparr>attr_values = infinite_results, attr_unit = PStr [], attr_name = PStr [],
      attr_error_method = PErrorMethod DERIVATIVE, attr_is_error_method_specified = False\<rparr>
     = Inr (PFloat FPosInf, PFloat (FReal 2)) \<and>
   Function_print_value (\<lambda>c p. ''formatted'') config
     \<lparr>attr_values = infinite_results, attr_unit = PStr [], attr_name = PStr [],
      attr_error_method = PErrorMethod DERIVATIVE, attr_is_error_method_specified = False\<rparr>
     = Inr ''inf''"
proof -
  let ?m = "MeasuredValue_init MeasuredValue (PFloat FPosInf) (PInt 0) (PStr []) (PStr [])"
  let ?f = "\<lparr>attr_values = infinite_results, attr_unit = PStr [], attr_name = PStr [],
      attr_error_method = PErrorMethod DERIVATIVE, attr_is_error_method_specified = False\<rparr>"
  have a: "MeasuredValue_value ?m = Inr (PFloat FPosInf)"
    by (simp add: MeasuredValue_value_def MeasuredValue_init_def getitem_setitem)
  have b: "Function_selected_pair config ?f = Inr (PFloat FPosInf, PFloat (FReal 2))"
    by (simp add: Function_selected_pair_def get_error_method_def config_def ERROR_METHOD_def
        infinite_results_def getitem_def)
  from print_value_of_infinity [of ?m "\<lambda>c p. ''formatted''" config ?f "PFloat (FReal 2)"] a b
  show ?thesis by blast
qed

subsection \<open>The factory\<close>

lemma number_not_array: "isinstance_NUMBER_TYPES x \<Longrightarrow> \<not> isinstance_ARRAY_TYPES x"
  by (cases x) simp_all

lemma py_float_number: "isinstance_NUMBER_TYPES x \<Longrightarrow> \<exists>f. py_float x = Inr f"
  by (cases x) simp_all

lemma MeasuredValue_init_pair:
  "MeasuredValue_value (MeasuredValue_init c v e u n) = Inr v"
  "MeasuredValue_error (MeasuredValue_init c v e u n) = Inr e"
  by (simp_all add: MeasuredValue_value_def MeasuredValue_error_def MeasuredValue_init_def
      getitem_setitem)

lemma Measurement_one_number:
  assumes "isinstance_NUMBER_TYPES x" and "py_float x = Inr f"
    and "getitem kwargs ''unit'' = Inr u" and "getitem kwargs ''name'' = Inr n"
  shows "Measurement [x] kwargs =
           returns (Some (MeasuredValue_init MeasuredValue (PFloat f) (PInt 0) u n))"
  using assms number_not_array [OF assms(1)] by (simp add: Measurement_def)

lemma Measurement_two_numbers:
  assumes "isinstance_NUMBER_TYPES x" and "py_float x = Inr f"
    and "isinstance_NUMBER_TYPES y" and "py_float y = Inr g"
    and "getitem kwargs ''unit'' = Inr u" and "getitem kwargs ''name'' = Inr n"
  shows "Measurement [x, y] kwargs =
           returns (Some (MeasuredValue_init MeasuredValue (PFloat f) (PFloat g) u n))"
  using assms by (simp add: Measurement_def)

lemma Measurement_array:
  assumes "getitem kwargs ''unit'' = Inr u" and "getitem kwargs ''name'' = Inr n"
    and "np_array (PList xs) = Inr ms"
  shows "Measurement [PList xs] kwargs =
           returns (Some \<lparr>attr_values = [(RECORDED, (PFloat (np_mean ms), PFloat (np_std ms)))],
                          attr_unit = PStr [], attr_name = PStr [],
                          attr_class = RepeatedlyMeasuredValue, attr_raw_data = Some ms\<rparr>)"
  using assms
  by (simp add: Measurement_def RepeatedlyMeasuredValue_init_def MeasuredValue_init_def Let_def
      setitem_def)

lemma Measurement_other_shape:
  assumes "\<not> (length args = 1 \<and> isinstance_ARRAY_TYPES (args ! 0))"
    and "\<not> (length args = 1 \<and> isinstance_NUMBER_TYPES (args ! 0))"
    and "\<not> (length args = 2 \<and> isinstance_NUMBER_TYPES (args ! 0) \<and> isinstance_NUMBER_TYPES (args ! 1))"
  shows "Measurement args kwargs = prints Measurement_msg None"
  unfolding Measurement_def using assms by (simp only: if_False)

lemma getitem_Inl: "getitem d k = Inl e \<Longrightarrow> e = KeyError"
  by (simp add: getitem_def split: option.splits)

lemma keyword_lookup_fails:
  assumes "getitem kwargs ''unit'' = Inl KeyError \<or> getitem kwargs ''name'' = Inl KeyError"
  shows "(case getitem kwargs ''unit'' of
            Inl e \<Rightarrow> raises e None
          | Inr unit \<Rightarrow>
              (case getitem kwargs ''name'' of
                 Inl e \<Rightarrow> raises e None
               | Inr name \<Rightarrow> F unit name)) = raises KeyError None"
proof (cases "getitem kwargs ''unit''")
  case (Inl e)
  then show ?thesis using getitem_Inl [OF Inl] by simp
next
  case (Inr u)
  then have "getitem kwargs ''name'' = Inl KeyError" using assms by simp
  then show ?thesis using Inr by simp
qed

lemma Measurement_missing_keyword_array:
  assumes "getitem kwargs ''unit'' = Inl KeyError \<or> getitem kwargs ''name'' = Inl KeyError"
  shows "Measurement [PList xs] kwargs = raises KeyError None"
  by (simp add: Measurement_def keyword_lookup_fails [OF assms])

lemma Measurement_missing_keyword_one:
  assumes "getitem kwargs ''unit'' = Inl KeyError \<or> getitem kwargs ''name'' = Inl KeyError"
    and "isinstance_NUMBER_TYPES x"
  shows "Measurement [x] kwargs = raises KeyError None"
proof -
  obtain f where "py_float x = Inr f"
    using py_float_number [OF assms(2)] by blast
  then show ?thesis
    using assms(2) number_not_array [OF assms(2)]
    by (simp add: Measurement_def keyword_lookup_fails [OF assms(1)])
qed

lemma Measurement_missing_keyword_two:
  assumes "getitem kwargs ''unit'' = Inl KeyError \<or> getitem kwargs ''name'' = Inl KeyError"
    and "isinstance_NUMBER_TYPES x" and "isinstance_NUMBER_TYPES y"
  shows "Measurement [x, y] kwargs = raises KeyError None"
proof -
  obtain f g where "py_float x = Inr f" "py_float y = Inr g"
    using py_float_number [OF assms(2)] py_float_number [OF assms(3)] by blast
  then show ?thesis
    using assms(2,3)
    by (simp add: Measurement_def keyword_lookup_fails [OF assms(1)])
qed

text \<open>
  With both keywords supplied the factory does dispatch on the shape of its arguments,
  as the lemmas above state. The mean and the standard deviation of finite samples are
  the arithmetic mean and the population standard deviation, with divisor \<open>N\<close>.
\<close>

lemma np_sum_finite: "foldl fadd (FReal a) (map FReal rs) = FReal (a + sum_list rs)"
  by (induction rs arbitrary: a) (simp_all add: add.assoc)

lemma np_mean_finite:
  "rs \<noteq> [] \<Longrightarrow> np_mean (map FReal rs) = FReal (sum_list rs / real (length rs))"
  by (simp add: np_mean_def np_sum_def np_sum_finite)

lemma np_std_finite:
  assumes "rs \<noteq> []"
  shows "np_std (map FReal rs) =
           FReal (sqrt (sum_list (map (\<lambda>r. (r - sum_list rs / real (length rs))\<^sup>2) rs)
                          / real (length rs)))"
proof -
  let ?m = "sum_list rs / real (length rs)"
  have sq: "map (\<lambda>x. fmul (fsub x (FReal ?m)) (fsub x (FReal ?m))) (map FReal rs)
              = map FReal (map (\<lambda>r. (r - ?m)\<^sup>2) rs)"
    by (simp add: fsub_def power2_eq_square)
  have nonneg: "0 \<le> sum_list (map (\<lambda>r. (r - ?m)\<^sup>2) rs) / real (length rs)"
    by (intro divide_nonneg_nonneg sum_list_nonneg) auto
  show ?thesis
    using assms nonneg
    by (simp add: np_std_def np_mean_finite Let_def sq np_sum_def np_sum_finite
        del: map_map)
qed

text \<open>
  Claim C2. The keywords \<^verbatim>\<open>name\<close> and \<^verbatim>\<open>unit\<close> should be optional, and should be
  attached when given. The code reads \<^verbatim>\<open>kwargs["unit"]\<close> and \<^verbatim>\<open>kwargs["name"]\<close>
  unconditionally: \<^verbatim>\<open>Measurement(12, 1)\<close> and \<^verbatim>\<open>Measurement(12, name="length")\<close> raise
  KeyError. With both keywords and an array, the constructor of the repeated measurement
  passes them on as \<^verbatim>\<open>super().__init__(unit, name)\<close>, where they are taken for the value
  and the error: the instance has the empty name and the empty unit.
\<close>

theorem Measurement_keywords_not_optional:
  "Measurement [PInt 12, PInt 1] [] = raises KeyError None \<and>
   Measurement [PInt 12] [(''name'', PStr ''length'')] = raises KeyError None \<and>
   raised (Measurement [PList [PInt 1, PInt 3]]
             [(''name'', PStr ''length''), (''unit'', PStr ''m'')]) = None \<and>
   map_option attr_name
     (result (Measurement [PList [PInt 1, PInt 3]]
                [(''name'', PStr ''length''), (''unit'', PStr ''m'')])) = Some (PStr []) \<and>
   map_option attr_unit
     (result (Measurement [PList [PInt 1, PInt 3]]
                [(''name'', PStr ''length''), (''unit'', PStr ''m'')])) = Some (PStr [])"
  by (simp add: Measurement_def getitem_def RepeatedlyMeasuredValue_init_def np_array_def
      MeasuredValue_init_def Let_def)

text \<open>
  Claim C3. The factory should return a measurement for one number, for two numbers and
  for an array of numbers. The three calls of its own docstring, \<^verbatim>\<open>Measurement(12, 1)\<close>,
  \<^verbatim>\<open>Measurement(12)\<close> and \<^verbatim>\<open>Measurement([5.6, 4.8, 6.1, 4.9, 5.1])\<close>, raise KeyError
  and return nothing.
\<close>

theorem Measurement_docstring_usage_raises:
  "Measurement [PInt 12, PInt 1] [] = raises KeyError None \<and>
   Measurement [PInt 12] [] = raises KeyError None \<and>
   Measurement [PList [PFloat (FReal 5.6), PFloat (FReal 4.8), PFloat (FReal 6.1),
                       PFloat (FReal 4.9), PFloat (FReal 5.1)]] [] = raises KeyError None"
  by (simp add: Measurement_def getitem_def)

text \<open>
  Claim C6. Every stored uncertainty should be non-negative. The factory stores the
  second number as it is: \<^verbatim>\<open>Measurement(12, -1, unit="m", name="x")\<close> returns a
  measurement whose error is \<open>-1\<close>.
\<close>

theorem Measurement_accepts_negative_uncertainty:
  "Measurement [PInt 12, PInt (- 1)] [(''unit'', PStr ''m''), (''name'', PStr ''x'')] =
     returns (Some (MeasuredValue_init MeasuredValue (PFloat (FReal 12)) (PFloat (FReal (- 1)))
                      (PStr ''m'') (PStr ''x''))) \<and>
   MeasuredValue_error
     (MeasuredValue_init MeasuredValue (PFloat (FReal 12)) (PFloat (FReal (- 1)))
        (PStr ''m'') (PStr ''x'')) = Inr (PFloat (FReal (- 1)))"
  by (simp add: Measurement_def getitem_def MeasuredValue_init_def MeasuredValue_error_def
      setitem_def RECORDED_def)

text \<open>
  The setter of the relative error multiplies the stored value by a positive factor: on a
  measurement of \<open>-2\<close> the relative error 1 stores the uncertainty \<open>-2\<close>.
\<close>

lemma relative_error_setter_negative:
  "MeasuredValue_error (result (MeasuredValue_relative_error_setter
     (MeasuredValue_init MeasuredValue (PFloat (FReal (- 2))) (PInt 0) (PStr []) (PStr []))
     (PInt 1))) = Inr (PFloat (FReal (- 2)))"
  by (simp add: MeasuredValue_relative_error_setter_def MeasuredValue_init_def getitem_def
      setitem_def RECORDED_def cast_to_base_def hasattr_raw_data_def MeasuredValue_error_def)

subsection \<open>The setters\<close>

lemma np_mean_sample: "np_mean [FReal 1, FReal 3] = FReal 2"
  by (simp add: np_mean_def np_sum_def)

lemma np_std_sample: "np_std [FReal 1, FReal 3] = FReal 1"
  by (simp add: np_std_def np_mean_sample np_sum_def fsub_def Let_def)

lemma Measurement_sample:
  "Measurement [PList [PInt 1, PInt 3]] [(''unit'', PStr ''m''), (''name'', PStr ''x'')]
     = returns (Some sample)"
  by (simp add: Measurement_def getitem_def RepeatedlyMeasuredValue_init_def np_array_def
      MeasuredValue_init_def Let_def np_mean_sample np_std_sample setitem_def RECORDED_def
      sample_def)

text \<open>
  Claim C5. Assigning a number to \<^verbatim>\<open>.value\<close> or \<^verbatim>\<open>.error\<close> of a repeated measurement
  should succeed, warn, and remove the raw data. On the measurement \<open>sample\<close> the pair
  is stored and the warning printed, then the cast \<^verbatim>\<open>self.__class__ = MeasuredValue\<close>
  raises TypeError, since \<^verbatim>\<open>RepeatedlyMeasuredValue\<close> declares a slot of its own. The
  instance keeps its class, and \<^verbatim>\<open>raw_data\<close> still returns the samples.
\<close>

theorem setter_on_repeated_measurement_raises:
  "MeasuredValue_value_setter sample (PInt 5) =
     \<lparr>result = sample\<lparr>attr_values := [(''recorded'', (PInt 5, PFloat (FReal 1)))]\<rparr>,
      printed = [value_setter_warning], raised = Some TypeError\<rparr> \<and>
   RepeatedlyMeasuredValue_raw_data (result (MeasuredValue_value_setter sample (PInt 5)))
     = Inr [FReal 1, FReal 3] \<and>
   MeasuredValue_error_setter sample (PInt 5) =
     \<lparr>result = sample\<lparr>attr_values := [(''recorded'', (PFloat (FReal 2), PInt 5))]\<rparr>,
      printed = [error_setter_warning], raised = Some TypeError\<rparr> \<and>
   RepeatedlyMeasuredValue_raw_data (result (MeasuredValue_error_setter sample (PInt 5)))
     = Inr [FReal 1, FReal 3]"
  by (simp add: MeasuredValue_value_setter_def MeasuredValue_error_setter_def sample_def
      getitem_def setitem_def RECORDED_def cast_to_base_def hasattr_raw_data_def
      assign_class_def RepeatedlyMeasuredValue_raw_data_def)

text \<open>
  Claim C10. The setter of the error rejects every input that is not a number greater
  than zero, zero included: it prints its message and the measurement is as before. Yet
  the factory called with one number (and both keywords) returns a measurement whose
  error is 0, an error that the setter would not take.
\<close>

theorem error_setter_rejects_nonpositive:
  "(\<not> (isinstance_NUMBER_TYPES v \<and> gt_zero v) \<longrightarrow>
      MeasuredValue_error_setter self v = prints error_setter_msg self) \<and>
   MeasuredValue_error_setter self (PInt 0) = prints error_setter_msg self \<and>
   MeasuredValue_error_setter self (PFloat (FReal 0)) = prints error_setter_msg self \<and>
   (isinstance_NUMBER_TYPES x \<and> getitem kwargs ''unit'' = Inr u \<and> getitem kwargs ''name'' = Inr n \<longrightarrow>
      (\<exists>obj. Measurement [x] kwargs = returns (Some obj) \<and>
             MeasuredValue_error obj = Inr (PInt 0) \<and>
             MeasuredValue_error_setter obj (PInt 0) = prints error_setter_msg obj))"
proof (intro conjI impI)
  assume "\<not> (isinstance_NUMBER_TYPES v \<and> gt_zero v)"
  then show "MeasuredValue_error_setter self v = prints error_setter_msg self"
    unfolding MeasuredValue_error_setter_def by (simp only: if_False)
next
  show "MeasuredValue_error_setter self (PInt 0) = prints error_setter_msg self"
    by (simp add: MeasuredValue_error_setter_def)
next
  show "MeasuredValue_error_setter self (PFloat (FReal 0)) = prints error_setter_msg self"
    by (simp add: MeasuredValue_error_setter_def)
next
  assume h: "isinstance_NUMBER_TYPES x \<and> getitem kwargs ''unit'' = Inr u
               \<and> getitem kwargs ''name'' = Inr n"
  then obtain f where f: "py_float x = Inr f"
    using py_float_number by blast
  let ?obj = "MeasuredValue_init MeasuredValue (PFloat f) (PInt 0) u n"
  have "Measurement [x] kwargs = returns (Some ?obj)"
    using h f by (simp add: Measurement_one_number)
  moreover have "MeasuredValue_error ?obj = Inr (PInt 0)"
    by (rule MeasuredValue_init_pair)
  moreover have "MeasuredValue_error_setter ?obj (PInt 0) = prints error_setter_msg ?obj"
    by (simp add: MeasuredValue_error_setter_def)
  ultimately show "\<exists>obj. Measurement [x] kwargs = returns (Some obj) \<and>
             MeasuredValue_error obj = Inr (PInt 0) \<and>
             MeasuredValue_error_setter obj (PInt 0) = prints error_setter_msg obj"
    by blast
qed

theorem error_setter_rejects_nonpositive_witness:
  "\<not> (isinstance_NUMBER_TYPES (PInt (- 3)) \<and> gt_zero (PInt (- 3))) \<and>
   MeasuredValue_error_setter sample (PInt (- 3)) = prints error_setter_msg sample \<and>
   \<not> (isinstance_NUMBER_TYPES (PStr ''1'') \<and> gt_zero (PStr ''1'')) \<and>
   MeasuredValue_error_setter sample (PStr ''1'') = prints error_setter_msg sample \<and>
   isinstance_NUMBER_TYPES (PInt 12) \<and>
   getitem [(''unit'', PStr ''m''), (''name'', PStr ''x'')] ''unit'' = Inr (PStr ''m'') \<and>
   getitem [(''unit'', PStr ''m''), (''name'', PStr ''x'')] ''name'' = Inr (PStr ''x'') \<and>
   (\<exists>obj. Measurement [PInt 12] [(''unit'', PStr ''m''), (''name'', PStr ''x'')] = returns (Some obj) \<and>
          MeasuredValue_error obj = Inr (PInt 0) \<and>
          MeasuredValue_error_setter obj (PInt 0) = prints error_setter_msg obj)"
proof -
  let ?kw = "[(''unit'', PStr ''m''), (''name'', PStr ''x'')]"
  have a: "\<not> (isinstance_NUMBER_TYPES (PInt (- 3)) \<and> gt_zero (PInt (- 3)))" by simp
  have b: "\<not> (isinstance_NUMBER_TYPES (PStr ''1'') \<and> gt_zero (PStr ''1''))" by simp
  have c: "isinstance_NUMBER_TYPES (PInt 12) \<and> getitem ?kw ''unit'' = Inr (PStr ''m'')
             \<and> getitem ?kw ''name'' = Inr (PStr ''x'')"
    by (simp add: getitem_def)
  from error_setter_rejects_nonpositive [of "PInt (- 3)" sample "PInt 12" ?kw "PStr ''m''" "PStr ''x''"]
       error_setter_rejects_nonpositive [of "PStr ''1''" sample "PInt 12" ?kw "PStr ''m''" "PStr ''x''"] a b c
  show ?thesis by blast
qed

end
